theory Spec2Isabelle
  imports
    Complex_Main
    "HOL-Library.Char_ord"
    "HOL-Library.List_Lexorder"
    "HOL-Library.AList"
    "HOL-Library.Sublist"
begin

chapter \<open>aegis-ai: record store, drug-interaction lookup, ingestion, gateway and workflow nodes\<close>

text \<open>
  A shallow embedding of the Python sources \<^verbatim>\<open>src/aegis/fhir.py\<close>,
  \<^verbatim>\<open>src/aegis/mcp_server.py\<close>, \<^verbatim>\<open>src/aegis/rag/ingest.py\<close>,
  \<^verbatim>\<open>src/aegis/rag/retriever.py\<close>, \<^verbatim>\<open>src/aegis/llm.py\<close> and
  \<^verbatim>\<open>src/aegis/agent/nodes.py\<close>. A leading underscore of a Python name is dropped
  (\<^verbatim>\<open>_extract_json\<close> is \<open>extract_json\<close>), since an Isabelle name cannot start with one.
\<close>

section \<open>Python strings\<close>

text \<open>
  A Python \<^verbatim>\<open>str\<close> is a sequence of code points. It is modelled as a \<^typ>\<open>string\<close>
  whose characters are the code points below 256 (Latin-1), one \<^typ>\<open>char\<close> per code
  point: \<open>CHR 0xE3\<close> is U+00E3. The built-in methods below are given for that range,
  where \<^verbatim>\<open>str.lower\<close> works character by character.
\<close>

definition isspace :: "char \<Rightarrow> bool" where
  \<comment> \<open>the code points below 256 for which \<^verbatim>\<open>str.isspace\<close> holds; the regular
      expression class \<^verbatim>\<open>\s\<close> on \<^verbatim>\<open>str\<close> patterns is the same set\<close>
  "isspace c = ((of_char c :: nat) \<in> {9, 10, 11, 12, 13, 28, 29, 30, 31, 32, 133, 160})"

definition py_strip :: "string \<Rightarrow> string" where
  \<comment> \<open>\<^verbatim>\<open>s.strip()\<close>\<close>
  "py_strip s = rev (dropWhile isspace (rev (dropWhile isspace s)))"

definition lower_char :: "char \<Rightarrow> char" where
  "lower_char c =
     (let n = (of_char c :: nat)
      in if (65 \<le> n \<and> n \<le> 90) \<or> (192 \<le> n \<and> n \<le> 222 \<and> n \<noteq> 215)
         then char_of (n + 32) else c)"

definition py_lower :: "string \<Rightarrow> string" where
  \<comment> \<open>\<^verbatim>\<open>s.lower()\<close>\<close>
  "py_lower s = map lower_char s"

fun split_from :: "string \<Rightarrow> string \<Rightarrow> string list" where
  \<comment> \<open>the scan of \<^verbatim>\<open>s.split()\<close>: \<open>cur\<close> is the token being read\<close>
  "split_from cur [] = (if cur = [] then [] else [cur])"
| "split_from cur (c # cs) =
     (if isspace c then (if cur = [] then split_from [] cs else cur # split_from [] cs)
      else split_from (cur @ [c]) cs)"

definition py_split :: "string \<Rightarrow> string list" where
  \<comment> \<open>\<^verbatim>\<open>s.split()\<close> with no argument: the maximal runs of non-whitespace\<close>
  "py_split s = split_from [] s"

fun py_join :: "string \<Rightarrow> string list \<Rightarrow> string" where
  \<comment> \<open>\<^verbatim>\<open>sep.join(xs)\<close>\<close>
  "py_join sep [] = []"
| "py_join sep [x] = x"
| "py_join sep (x # y # ys) = x @ sep @ py_join sep (y # ys)"


definition startswith :: "string \<Rightarrow> string \<Rightarrow> bool" where
  \<comment> \<open>\<^verbatim>\<open>s.startswith(p)\<close>\<close>
  "startswith s p = prefix p s"

definition get_or :: "'a \<Rightarrow> 'a option \<Rightarrow> 'a" where
  \<comment> \<open>\<^verbatim>\<open>d.get(key, default)\<close> for a key whose presence is the option\<close>
  "get_or d v = (case v of None \<Rightarrow> d | Some x \<Rightarrow> x)"

section \<open>Errors\<close>

datatype error =
    ValueError string        \<comment> \<open>\<^verbatim>\<open>raise ValueError(message)\<close>\<close>
  | KeyError string          \<comment> \<open>a subscript \<^verbatim>\<open>d[key]\<close> on a missing key\<close>
  | TypeError string         \<comment> \<open>an operation on a value of the wrong type\<close>
  | AttributeError string    \<comment> \<open>a method that the value does not have\<close>
  | IndexError               \<comment> \<open>a subscript \<^verbatim>\<open>xs[0]\<close> on an empty sequence\<close>
  | JSONDecodeError          \<comment> \<open>\<^verbatim>\<open>json.loads\<close> (a subclass of ValueError)\<close>
  | ExternalError string     \<comment> \<open>any exception raised by an external service or the file system\<close>

section \<open>Results of effectful code\<close>

text \<open>
  Code that calls an external service, or changes module-level state, takes the state of
  the world and returns its result, or the exception it raises, with the new state.
\<close>

type_synonym ('r, 'w) io = "'w \<Rightarrow> (error + 'r) \<times> 'w"

fun map_result :: "('a \<Rightarrow> error + 'b) \<Rightarrow> 'a list \<Rightarrow> error + 'b list" where
  \<comment> \<open>a list comprehension whose element expression may raise: the first exception wins\<close>
  "map_result f [] = Inr []"
| "map_result f (x # xs) =
     (case f x of
        Inl err \<Rightarrow> Inl err
      | Inr y \<Rightarrow> (case map_result f xs of Inl err \<Rightarrow> Inl err | Inr ys \<Rightarrow> Inr (y # ys)))"

section \<open>JSON values as Python objects\<close>

text \<open>
  What \<^verbatim>\<open>json.load\<close> returns, and what the language model delivers as structured output:
  \<open>None\<close>, a bool, an int, a float, a str, a list or a dict with string keys. \<open>JObject\<close>
  holds the items of the dict, whose keys are distinct. A float is modelled as a real number
  (no NaN, no infinity). The annotations \<^verbatim>\<open>dict[str, Any]\<close> and \<^verbatim>\<open>list[dict[str, str]]\<close> of the
  sources are not checked at run time, so the functions below take any value and return the
  exception that Python raises on a value of the wrong type.
\<close>

datatype json =
    JNull | JBool bool | JInt int | JFloat real | JString string
  | JArray "json list" | JObject "(string \<times> json) list"

definition truthy :: "json \<Rightarrow> bool" where
  \<comment> \<open>the truth value of an object, as \<^verbatim>\<open>if x\<close> and \<^verbatim>\<open>not x\<close> take it\<close>
  "truthy v =
     (case v of
        JNull \<Rightarrow> False | JBool b \<Rightarrow> b | JInt i \<Rightarrow> i \<noteq> 0 | JFloat r \<Rightarrow> r \<noteq> 0
      | JString s \<Rightarrow> s \<noteq> [] | JArray xs \<Rightarrow> xs \<noteq> [] | JObject kvs \<Rightarrow> kvs \<noteq> [])"

definition py_get :: "json \<Rightarrow> string \<Rightarrow> json \<Rightarrow> error + json" where
  \<comment> \<open>\<^verbatim>\<open>x.get(key, default)\<close>: only a dict has the method\<close>
  "py_get x key dflt =
     (case x of
        JObject kvs \<Rightarrow> Inr (get_or dflt (map_of kvs key))
      | _ \<Rightarrow> Inl (AttributeError ''get''))"

definition getitem :: "json \<Rightarrow> string \<Rightarrow> error + json" where
  \<comment> \<open>\<^verbatim>\<open>x[key]\<close> for a string key\<close>
  "getitem x key =
     (case x of
        JObject kvs \<Rightarrow> (case map_of kvs key of None \<Rightarrow> Inl (KeyError key) | Some v \<Rightarrow> Inr v)
      | _ \<Rightarrow> Inl (TypeError ''subscript''))"

definition py_iter :: "json \<Rightarrow> error + json list" where
  \<comment> \<open>the elements that \<^verbatim>\<open>for e in x\<close> runs through: those of a list, the keys of a dict,
      the characters of a str\<close>
  "py_iter x =
     (case x of
        JArray xs \<Rightarrow> Inr xs
      | JObject kvs \<Rightarrow> Inr (map (\<lambda>kv. JString (fst kv)) kvs)
      | JString s \<Rightarrow> Inr (map (\<lambda>c. JString [c]) s)
      | _ \<Rightarrow> Inl (TypeError ''not iterable''))"

definition py_first :: "json \<Rightarrow> error + json" where
  \<comment> \<open>\<^verbatim>\<open>x[0]\<close>\<close>
  "py_first x =
     (case x of
        JArray xs \<Rightarrow> (case xs of [] \<Rightarrow> Inl IndexError | y # ys \<Rightarrow> Inr y)
      | JString s \<Rightarrow> (case s of [] \<Rightarrow> Inl IndexError | c # cs \<Rightarrow> Inr (JString [c]))
      | JObject kvs \<Rightarrow> Inl (KeyError ''0'')
      | _ \<Rightarrow> Inl (TypeError ''subscript''))"

definition as_str :: "json \<Rightarrow> error + string" where
  \<comment> \<open>a value where a str is required, as by \<^verbatim>\<open>str.join\<close> and by \<^verbatim>\<open>+\<close> with a str\<close>
  "as_str x = (case x of JString s \<Rightarrow> Inr s | _ \<Rightarrow> Inl (TypeError ''str expected''))"

definition join_values :: "string \<Rightarrow> json \<Rightarrow> error + string" where
  \<comment> \<open>\<^verbatim>\<open>sep.join(x)\<close>\<close>
  "join_values sep x =
     (case py_iter x of
        Inl err \<Rightarrow> Inl err
      | Inr xs \<Rightarrow> (case map_result as_str xs of Inl err \<Rightarrow> Inl err | Inr ss \<Rightarrow> Inr (py_join sep ss)))"

definition py_format :: "(json \<Rightarrow> string) \<Rightarrow> json \<Rightarrow> string" where
  \<comment> \<open>\<^verbatim>\<open>f"{x}"\<close>: a str as it is, any other value through \<^verbatim>\<open>str()\<close>, which is the parameter
      \<open>py_str\<close>\<close>
  "py_format py_str x = (case x of JString s \<Rightarrow> s | _ \<Rightarrow> py_str x)"

datatype pykey =
  \<comment> \<open>a hashable value as the key of a dict. Keys that Python finds equal are one key:
      \<open>True\<close>, \<open>1\<close> and \<open>1.0\<close> are the number 1.\<close>
    KNone | KNum real | KStr string

definition key_of :: "json \<Rightarrow> error + pykey" where
  \<comment> \<open>the key that a value is; a list or a dict is unhashable\<close>
  "key_of x =
     (case x of
        JNull \<Rightarrow> Inr KNone
      | JBool b \<Rightarrow> Inr (KNum (if b then 1 else 0))
      | JInt i \<Rightarrow> Inr (KNum (of_int i))
      | JFloat r \<Rightarrow> Inr (KNum r)
      | JString s \<Rightarrow> Inr (KStr s)
      | _ \<Rightarrow> Inl (TypeError ''unhashable''))"

definition key_truthy :: "pykey \<Rightarrow> bool" where
  "key_truthy k = (case k of KNone \<Rightarrow> False | KNum r \<Rightarrow> r \<noteq> 0 | KStr s \<Rightarrow> s \<noteq> [])"

section \<open>Guideline ingestion: the load step (rag/ingest.py)\<close>

record fpath =
  p_str :: string       \<comment> \<open>\<^verbatim>\<open>str(path)\<close>\<close>
  p_name :: string      \<comment> \<open>\<^verbatim>\<open>path.name\<close>, the final component\<close>
  p_suffix :: string    \<comment> \<open>\<^verbatim>\<open>path.suffix\<close>, as pathlib computes it from the name\<close>

record file_system =
  read_text :: "fpath \<Rightarrow> error + string"
    \<comment> \<open>\<^verbatim>\<open>path.read_text(encoding="utf-8")\<close>\<close>
  pdf_pages :: "fpath \<Rightarrow> error + string option list"
    \<comment> \<open>\<^verbatim>\<open>page.extract_text()\<close> for the pages of \<^verbatim>\<open>PdfReader(path)\<close>\<close>
  iterdir :: "string \<Rightarrow> error + fpath list"
    \<comment> \<open>\<^verbatim>\<open>directory.iterdir()\<close>: the entries of a directory, all with the same parent\<close>

record document =
  doc_source :: string
  doc_text :: string

definition load_text_file :: "file_system \<Rightarrow> fpath \<Rightarrow> error + string" where
  "load_text_file fs path = read_text fs path"

definition load_pdf_file :: "file_system \<Rightarrow> fpath \<Rightarrow> error + string" where
  \<comment> \<open>\<^verbatim>\<open>"\n\n".join(page.extract_text() or "" for page in reader.pages)\<close>\<close>
  "load_pdf_file fs path =
     (case pdf_pages fs path of
        Inl err \<Rightarrow> Inl err
      | Inr pages \<Rightarrow> Inr (py_join [CHR 0x0A, CHR 0x0A] (map (get_or []) pages)))"

definition load_document :: "file_system \<Rightarrow> fpath \<Rightarrow> error + string" where
  "load_document fs path =
     (let suffix = py_lower (p_suffix path)
      in if suffix = ''.pdf'' then load_pdf_file fs path
         else if suffix \<in> {''.txt'', ''.md''} then load_text_file fs path
         else Inl (ValueError (''Unsupported file type: '' @ suffix @ '' ('' @ p_str path @ '')'')))"

fun load_documents_from ::
  "file_system \<Rightarrow> document list \<Rightarrow> fpath list \<Rightarrow> error + document list" where
  \<comment> \<open>the loop of \<^verbatim>\<open>load_all_documents\<close>, \<open>docs\<close> being the list built so far\<close>
  "load_documents_from fs docs [] = Inr docs"
| "load_documents_from fs docs (path # paths) =
     (if py_lower (p_suffix path) \<in> {''.txt'', ''.md'', ''.pdf''}
      then (case load_document fs path of
              Inl err \<Rightarrow> Inl err
            | Inr text \<Rightarrow>
                load_documents_from fs (docs @ [\<lparr>doc_source = p_name path, doc_text = text\<rparr>]) paths)
      else load_documents_from fs docs paths)"

definition load_all_documents :: "file_system \<Rightarrow> string \<Rightarrow> error + document list" where
  \<comment> \<open>\<^verbatim>\<open>sorted(directory.iterdir())\<close> orders the paths of one directory by their names\<close>
  "load_all_documents fs directory =
     (case iterdir fs directory of
        Inl err \<Rightarrow> Inl err
      | Inr paths \<Rightarrow> load_documents_from fs [] (sort_key p_name paths))"

definition supported :: "fpath \<Rightarrow> bool" where
  \<comment> \<open>plain text (\<open>.txt\<close>, \<open>.md\<close>) or PDF, whatever the letter case of the extension\<close>
  "supported path = (py_lower (p_suffix path) \<in> {''.txt'', ''.md'', ''.pdf''})"

definition loads_ok :: "file_system \<Rightarrow> fpath \<Rightarrow> bool" where
  \<comment> \<open>reading the file raises nothing\<close>
  "loads_ok fs path = (\<not> isl (load_document fs path))"

definition sample_files :: file_system where
  \<comment> \<open>a directory with a guideline, a spreadsheet and a PDF of two pages\<close>
  "sample_files =
     \<lparr>read_text = (\<lambda>path. if p_name path = ''has.TXT'' then Inr ''Diretriz HAS''
                           else Inl (ExternalError ''FileNotFoundError'')),
      pdf_pages = (\<lambda>path. if p_name path = ''dm2.pdf'' then Inr [Some ''p1'', None]
                           else Inl (ExternalError ''FileNotFoundError'')),
      iterdir = (\<lambda>directory.
        Inr [\<lparr>p_str = ''g/has.TXT'', p_name = ''has.TXT'', p_suffix = ''.TXT''\<rparr>,
             \<lparr>p_str = ''g/data.csv'', p_name = ''data.csv'', p_suffix = ''.csv''\<rparr>,
             \<lparr>p_str = ''g/dm2.pdf'', p_name = ''dm2.pdf'', p_suffix = ''.pdf''\<rparr>])\<rparr>"

section \<open>The record store (fhir.py)\<close>

text \<open>
  \<^verbatim>\<open>Resource = dict[str, Any]\<close>: a resource, an entry and a bundle are JSON values as the file
  holds them. \<open>py_str\<close> is Python's \<^verbatim>\<open>str()\<close> on values that are no str.
\<close>

record FHIRStore =
  patients :: "(pykey \<times> json) list"
    \<comment> \<open>\<^verbatim>\<open>_patients\<close>: a dict, whose iteration order is the insertion order\<close>
  patient_index :: "pykey \<rightharpoonup> (pykey \<rightharpoonup> json list)"
  ref_to_patient_id :: "pykey \<rightharpoonup> pykey"

definition FHIRStore_init :: FHIRStore where
  \<comment> \<open>\<^verbatim>\<open>FHIRStore.__init__\<close>\<close>
  "FHIRStore_init = \<lparr>patients = [], patient_index = Map.empty, ref_to_patient_id = Map.empty\<rparr>"

definition resolve_patient_id :: "FHIRStore \<Rightarrow> json \<Rightarrow> error + pykey option" where
  \<comment> \<open>\<^verbatim>\<open>_resolve_patient_id\<close>; \<open>ref.split("/", 1)[1]\<close> of a string that starts with
      \<open>Patient/\<close> is what follows these eight characters\<close>
  "resolve_patient_id s resource =
     (case py_get resource ''subject'' (JObject []) of
        Inl err \<Rightarrow> Inl err
      | Inr subject \<Rightarrow>
          (case py_get subject ''reference'' (JString []) of
             Inl err \<Rightarrow> Inl err
           | Inr ref \<Rightarrow>
               if \<not> truthy ref then Inr None
               else (case key_of ref of
                       Inl err \<Rightarrow> Inl err
                     | Inr ref_key \<Rightarrow>
                         (case ref_to_patient_id s ref_key of
                            Some pid \<Rightarrow> Inr (Some pid)
                          | None \<Rightarrow>
                              (case ref of
                                 JString r \<Rightarrow>
                                   if startswith r ''Patient/'' then Inr (Some (KStr (drop 8 r)))
                                   else Inr None
                               | _ \<Rightarrow> Inl (AttributeError ''startswith''))))))"

definition register_patient ::
  "(json \<Rightarrow> string) \<Rightarrow> FHIRStore \<Rightarrow> json \<Rightarrow> json \<Rightarrow> error + FHIRStore" where
  \<comment> \<open>the body of the first loop of \<^verbatim>\<open>load_bundle\<close> for a Patient resource\<close>
  "register_patient py_str s entry resource =
     (case getitem resource ''id'' of
        Inl err \<Rightarrow> Inl err
      | Inr id_value \<Rightarrow>
          (case key_of id_value of
             Inl err \<Rightarrow> Inl err
           | Inr pid \<Rightarrow>
               (case py_get entry ''fullUrl'' (JString []) of
                  Inl err \<Rightarrow> Inl err
                | Inr full_url \<Rightarrow>
                    (case (if truthy full_url then key_of full_url else Inr KNone) of
                       Inl err \<Rightarrow> Inl err
                     | Inr url_key \<Rightarrow>
                         Inr \<lparr>patients = AList.update pid resource (patients s),
                              patient_index =
                                (case patient_index s pid of
                                   None \<Rightarrow> (patient_index s)(pid \<mapsto> Map.empty)
                                 | Some by_type \<Rightarrow> patient_index s),
                              ref_to_patient_id =
                                (if truthy full_url then (ref_to_patient_id s)(url_key \<mapsto> pid)
                                 else ref_to_patient_id s)
                                (KStr (''Patient/'' @ py_format py_str id_value) \<mapsto> pid)\<rparr>))))"

fun first_pass :: "(json \<Rightarrow> string) \<Rightarrow> FHIRStore \<Rightarrow> json list \<Rightarrow> error + FHIRStore" where
  "first_pass py_str s [] = Inr s"
| "first_pass py_str s (entry # entries) =
     (case py_get entry ''resource'' (JObject []) of
        Inl err \<Rightarrow> Inl err
      | Inr resource \<Rightarrow>
          (case py_get resource ''resourceType'' JNull of
             Inl err \<Rightarrow> Inl err
           | Inr resource_type \<Rightarrow>
               if resource_type = JString ''Patient''
               then (case register_patient py_str s entry resource of
                       Inl err \<Rightarrow> Inl err
                     | Inr s1 \<Rightarrow> first_pass py_str s1 entries)
               else first_pass py_str s entries))"

definition index_resource :: "FHIRStore \<Rightarrow> json \<Rightarrow> json \<Rightarrow> error + FHIRStore" where
  \<comment> \<open>the body of the second loop for a resource of type \<open>res_type\<close> that is no Patient\<close>
  "index_resource s resource res_type =
     (case resolve_patient_id s resource of
        Inl err \<Rightarrow> Inl err
      | Inr None \<Rightarrow> Inr s
      | Inr (Some pid) \<Rightarrow>
          if key_truthy pid then
            (case patient_index s pid of
               None \<Rightarrow> Inr s
             | Some by_type \<Rightarrow>
                 (case key_of res_type of
                    Inl err \<Rightarrow> Inl err
                  | Inr type_key \<Rightarrow>
                      Inr (s\<lparr>patient_index := (patient_index s)
                             (pid \<mapsto> by_type(type_key \<mapsto> get_or [] (by_type type_key) @ [resource]))\<rparr>)))
          else Inr s)"

fun second_pass :: "FHIRStore \<Rightarrow> json list \<Rightarrow> error + FHIRStore" where
  "second_pass s [] = Inr s"
| "second_pass s (entry # entries) =
     (case py_get entry ''resource'' (JObject []) of
        Inl err \<Rightarrow> Inl err
      | Inr resource \<Rightarrow>
          (case py_get resource ''resourceType'' (JString []) of
             Inl err \<Rightarrow> Inl err
           | Inr res_type \<Rightarrow>
               if res_type = JString ''Patient'' then second_pass s entries
               else (case index_resource s resource res_type of
                       Inl err \<Rightarrow> Inl err
                     | Inr s1 \<Rightarrow> second_pass s1 entries)))"

definition load_bundle ::
  "(json \<Rightarrow> string) \<Rightarrow> (string \<Rightarrow> error + json) \<Rightarrow> FHIRStore \<Rightarrow> string \<Rightarrow> error + FHIRStore" where
  \<comment> \<open>\<open>read_json path\<close> is \<^verbatim>\<open>json.load\<close> of the opened file. An exception leaves the
      Python store as changed so far; the model returns the error only.\<close>
  "load_bundle py_str read_json s path =
     (case read_json path of
        Inl err \<Rightarrow> Inl err
      | Inr doc \<Rightarrow>
          (case py_get doc ''resourceType'' JNull of
             Inl err \<Rightarrow> Inl err
           | Inr doc_type \<Rightarrow>
               if doc_type \<noteq> JString ''Bundle''
               then Inl (ValueError (''Not a FHIR Bundle: '' @ path))
               else (case py_get doc ''entry'' (JArray []) of
                       Inl err \<Rightarrow> Inl err
                     | Inr entry_value \<Rightarrow>
                         (case py_iter entry_value of
                            Inl err \<Rightarrow> Inl err
                          | Inr entries \<Rightarrow>
                              (case first_pass py_str s entries of
                                 Inl err \<Rightarrow> Inl err
                               | Inr s1 \<Rightarrow> second_pass s1 entries)))))"

record directory =
  dir_name :: string                 \<comment> \<open>\<^verbatim>\<open>directory.name\<close>\<close>
  dir_json_files :: "string list"    \<comment> \<open>\<^verbatim>\<open>directory.glob("*.json")\<close>, as path strings\<close>

fun load_each ::
  "(json \<Rightarrow> string) \<Rightarrow> (string \<Rightarrow> error + json) \<Rightarrow> string \<Rightarrow> FHIRStore \<Rightarrow> string list
     \<Rightarrow> error + FHIRStore" where
  \<comment> \<open>the loop of \<^verbatim>\<open>load_directory\<close>; the parent of a globbed path is the directory\<close>
  "load_each py_str read_json parent_name s [] = Inr s"
| "load_each py_str read_json parent_name s (p # ps) =
     (if parent_name = ''metadata'' then load_each py_str read_json parent_name s ps
      else case load_bundle py_str read_json s p of
             Inl err \<Rightarrow> Inl err
           | Inr s1 \<Rightarrow> load_each py_str read_json parent_name s1 ps)"

definition load_directory ::
  "(json \<Rightarrow> string) \<Rightarrow> (string \<Rightarrow> error + json) \<Rightarrow> FHIRStore \<Rightarrow> directory \<Rightarrow> error + FHIRStore" where
  "load_directory py_str read_json s d =
     load_each py_str read_json (dir_name d) s (sort (dir_json_files d))"

definition format_patient_name :: "(json \<Rightarrow> string) \<Rightarrow> json \<Rightarrow> error + string" where
  \<comment> \<open>\<^verbatim>\<open>_format_patient_name\<close>; \<open>x or "Desconhecido"\<close> takes the sentinel when \<open>x\<close> is empty\<close>
  "format_patient_name py_str patient =
     (case py_get patient ''name'' (JArray []) of
        Inl err \<Rightarrow> Inl err
      | Inr names \<Rightarrow>
          if \<not> truthy names then Inr ''Desconhecido''
          else (case py_first names of
                  Inl err \<Rightarrow> Inl err
                | Inr nm \<Rightarrow>
                    (case py_get nm ''given'' (JArray []) of
                       Inl err \<Rightarrow> Inl err
                     | Inr given_value \<Rightarrow>
                         (case join_values '' '' given_value of
                            Inl err \<Rightarrow> Inl err
                          | Inr given \<Rightarrow>
                              (case py_get nm ''family'' (JString []) of
                                 Inl err \<Rightarrow> Inl err
                               | Inr family \<Rightarrow>
                                   (let full = py_strip (given @ '' '' @ py_format py_str family)
                                    in Inr (if full = [] then ''Desconhecido'' else full)))))))"

record patient_summary =
  ps_id :: pykey
  ps_name :: string

definition list_patients :: "(json \<Rightarrow> string) \<Rightarrow> FHIRStore \<Rightarrow> error + patient_summary list" where
  "list_patients py_str s =
     map_result
       (\<lambda>item. case format_patient_name py_str (snd item) of
                  Inl err \<Rightarrow> Inl err
                | Inr formatted \<Rightarrow> Inr \<lparr>ps_id = fst item, ps_name = formatted\<rparr>)
       (patients s)"

definition get_patient :: "FHIRStore \<Rightarrow> pykey \<Rightarrow> json option" where
  \<comment> \<open>\<^verbatim>\<open>self._patients.get(patient_id)\<close>: the resource, or Python's \<open>None\<close>\<close>
  "get_patient s patient_id = map_of (patients s) patient_id"

definition get_resources :: "FHIRStore \<Rightarrow> pykey \<Rightarrow> pykey \<Rightarrow> json list" where
  "get_resources s patient_id resource_type =
     get_or [] ((get_or Map.empty (patient_index s patient_id)) resource_type)"

definition get_conditions :: "FHIRStore \<Rightarrow> pykey \<Rightarrow> json list" where
  "get_conditions s patient_id = get_resources s patient_id (KStr ''Condition'')"

definition get_medications :: "FHIRStore \<Rightarrow> pykey \<Rightarrow> json list" where
  "get_medications s patient_id = get_resources s patient_id (KStr ''MedicationRequest'')"

definition get_observations :: "FHIRStore \<Rightarrow> pykey \<Rightarrow> json list" where
  "get_observations s patient_id = get_resources s patient_id (KStr ''Observation'')"

subsection \<open>Notions used to state the properties of the store\<close>

definition is_object :: "json \<Rightarrow> bool" where
  "is_object v = (case v of JObject kvs \<Rightarrow> True | _ \<Rightarrow> False)"








definition known_patient :: "FHIRStore \<Rightarrow> pykey \<Rightarrow> bool" where
  \<comment> \<open>\<^verbatim>\<open>patient_id in self._patient_index\<close>\<close>
  "known_patient s pid = (patient_index s pid \<noteq> None)"










datatype py_value =
    PyNone                     \<comment> \<open>Python's \<open>None\<close>\<close>
  | PyResource json            \<comment> \<open>one resource dict\<close>
  | PySeq "json list"          \<comment> \<open>a list of resources\<close>

definition py_optional :: "json option \<Rightarrow> py_value" where
  \<comment> \<open>the Python value of a result annotated \<^verbatim>\<open>Resource | None\<close>\<close>
  "py_optional v = (case v of None \<Rightarrow> PyNone | Some r \<Rightarrow> PyResource r)"

definition scalar_str :: "json \<Rightarrow> string" where
  \<comment> \<open>\<^verbatim>\<open>str()\<close> on \<open>None\<close> and on the booleans, the only values that the examples format\<close>
  "scalar_str v =
     (case v of JBool b \<Rightarrow> (if b then ''True'' else ''False'') | JString s \<Rightarrow> s | _ \<Rightarrow> ''None'')"

definition mk_resource ::
  "string \<Rightarrow> string \<Rightarrow> (string \<times> json) list \<Rightarrow> json" where
  \<comment> \<open>\<^verbatim>\<open>{"resourceType": t, "id": i, ...}\<close>\<close>
  "mk_resource t i rest = JObject ([(''resourceType'', JString t), (''id'', JString i)] @ rest)"

definition mk_subject :: "json \<Rightarrow> string \<times> json" where
  \<comment> \<open>\<^verbatim>\<open>"subject": {"reference": ref}\<close>\<close>
  "mk_subject ref = (''subject'', JObject [(''reference'', ref)])"







definition maria :: json where
  \<comment> \<open>the Patient of the Synthea-style bundle of \<^verbatim>\<open>tests/test_fhir.py\<close>\<close>
  "maria = mk_resource ''Patient'' ''aaaa''
     [(''name'', JArray [JObject [(''use'', JString ''official''), (''family'', JString ''Santos''),
                                   (''given'', JArray [JString ''Maria''])]])]"






definition diabetes :: json where
  \<comment> \<open>its Condition, whose subject is the patient's \<^verbatim>\<open>fullUrl\<close>\<close>
  "diabetes = mk_resource ''Condition'' ''1111'' [mk_subject (JString ''urn:uuid:aaaa'')]"





definition maria_store :: FHIRStore where
  \<comment> \<open>the store after loading the Synthea-style bundle into an empty store\<close>
  "maria_store = \<lparr>patients = [(KStr ''aaaa'', maria)],
     patient_index = [KStr ''aaaa'' \<mapsto> [KStr ''Condition'' \<mapsto> [diabetes]]],
     ref_to_patient_id = [KStr ''urn:uuid:aaaa'' \<mapsto> KStr ''aaaa'',
                          KStr ''Patient/aaaa'' \<mapsto> KStr ''aaaa'']\<rparr>"

section \<open>Drug interactions (mcp_server.py)\<close>

definition DRUG_INTERACTIONS :: "(string set \<times> string) list" where
  \<comment> \<open>the dict literal, keyed by \<^verbatim>\<open>frozenset\<close>s of two names\<close>
  "DRUG_INTERACTIONS =
     [({''losartana'', ''espironolactona''},
       ''Risco de hipercalemia. Monitorar pot'' @ [CHR 0xE1] @ ''ssio s'' @ [CHR 0xE9]
         @ ''rico regularmente.''),
      ({''losartana'', ''enalapril''},
       ''Duplo bloqueio do SRAA. Risco aumentado de hipotens'' @ [CHR 0xE3]
         @ ''o, hipercalemia e insufici'' @ [CHR 0xEA] @ ''ncia renal. Evitar associa''
         @ [CHR 0xE7, CHR 0xE3] @ ''o.''),
      ({''metformina'', ''contraste iodado''},
       ''Risco de acidose l'' @ [CHR 0xE1] @ ''tica. Suspender metformina 48h antes e ap''
         @ [CHR 0xF3] @ ''s procedimentos com contraste iodado.''),
      ({''metformina'', [CHR 0xE1] @ ''lcool''},
       ''Risco aumentado de acidose l'' @ [CHR 0xE1] @ ''tica. Orientar paciente a evitar ''
         @ ''consumo excessivo de '' @ [CHR 0xE1] @ ''lcool.''),
      ({''losartana'', ''ibuprofeno''},
       ''AINEs reduzem o efeito anti-hipertensivo e aumentam risco de les'' @ [CHR 0xE3]
         @ ''o renal. Evitar uso prolongado.''),
      ({''losartana'', ''diclofenaco''},
       ''AINEs reduzem o efeito anti-hipertensivo e aumentam risco de les'' @ [CHR 0xE3]
         @ ''o renal. Evitar uso prolongado.''),
      ({''hidroclorotiazida'', ''l'' @ [CHR 0xED] @ ''tio''},
       ''Tiaz'' @ [CHR 0xED] @ ''dicos reduzem a excre'' @ [CHR 0xE7, CHR 0xE3]
         @ ''o renal de l'' @ [CHR 0xED] @ ''tio. Risco de toxicidade por l'' @ [CHR 0xED]
         @ ''tio. Monitorar n'' @ [CHR 0xED] @ ''veis s'' @ [CHR 0xE9] @ ''ricos.''),
      ({''hidroclorotiazida'', ''digoxina''},
       ''Hipocalemia induzida por tiaz'' @ [CHR 0xED] @ ''dicos potencializa toxicidade ''
         @ ''digit'' @ [CHR 0xE1] @ ''lica. Monitorar pot'' @ [CHR 0xE1] @ ''ssio e digoxina.'')]"

definition normalize_drug_name :: "string \<Rightarrow> string" where
  \<comment> \<open>\<^verbatim>\<open>_normalize_drug_name\<close>\<close>
  "normalize_drug_name name = py_lower (py_strip name)"

definition interaction_of :: "string \<Rightarrow> string \<Rightarrow> string option" where
  \<comment> \<open>the local \<^verbatim>\<open>interaction\<close> of \<^verbatim>\<open>verificar_interacao_medicamentosa\<close>: the verdict of the lookup\<close>
  "interaction_of medicamento_a medicamento_b =
     (let a = normalize_drug_name medicamento_a;
          b = normalize_drug_name medicamento_b
      in map_of DRUG_INTERACTIONS {a, b})"

definition warning_sign :: string where
  \<comment> \<open>U+26A0, which lies outside the code points of the string model: its UTF-8 bytes\<close>
  "warning_sign = [CHR 0xE2, CHR 0x9A, CHR 0xA0]"

definition verificar_interacao_medicamentosa :: "string \<Rightarrow> string \<Rightarrow> string" where
  "verificar_interacao_medicamentosa medicamento_a medicamento_b =
     (let interaction = get_or [] (interaction_of medicamento_a medicamento_b)
      in if interaction \<noteq> []
         then warning_sign @ '' Intera'' @ [CHR 0xE7, CHR 0xE3] @ ''o encontrada entre ''
                @ medicamento_a @ '' e '' @ medicamento_b @ '':'' @ [CHR 0x0A] @ interaction
         else ''Nenhuma intera'' @ [CHR 0xE7, CHR 0xE3] @ ''o conhecida entre ''
                @ medicamento_a @ '' e '' @ medicamento_b @ ''.'' @ [CHR 0x0A]
                @ ''Nota: esta verifica'' @ [CHR 0xE7, CHR 0xE3]
                @ ''o cobre apenas intera'' @ [CHR 0xE7, CHR 0xF5] @ ''es comuns pr''
                @ [CHR 0xE9] @ ''-cadastradas. Consulte fontes farmacol'' @ [CHR 0xF3]
                @ ''gicas completas para an'' @ [CHR 0xE1] @ ''lise definitiva.'')"

definition same_up_to_whitespace :: "string \<Rightarrow> string \<Rightarrow> bool" where
  \<comment> \<open>the specification's "differences in whitespace": equal once all whitespace is removed\<close>
  "same_up_to_whitespace x y = (filter (\<lambda>c. \<not> isspace c) x = filter (\<lambda>c. \<not> isspace c) y)"

section \<open>Patient data tools (mcp_server.py)\<close>

record store_env =
  env_str :: "json \<Rightarrow> string"
    \<comment> \<open>Python's \<^verbatim>\<open>str()\<close> on values that are no str\<close>
  env_read_json :: "string \<Rightarrow> error + json"
    \<comment> \<open>\<^verbatim>\<open>json.load\<close> of a bundle file\<close>
  env_data_dir :: directory
    \<comment> \<open>\<^verbatim>\<open>settings.synthea_data_dir\<close>, with its \<open>*.json\<close> files\<close>

record formatters =
  \<comment> \<open>\<^verbatim>\<open>_format_patient\<close> (which reads the clock), \<^verbatim>\<open>_format_condition\<close>,
      \<^verbatim>\<open>_format_medication\<close> and \<^verbatim>\<open>_format_observation\<close> (which may raise \<open>KeyError\<close>)\<close>
  format_patient :: "json \<Rightarrow> error + string"
  format_condition :: "json \<Rightarrow> error + string"
  format_medication :: "json \<Rightarrow> error + string"
  format_observation :: "json \<Rightarrow> error + string"

function str_nat :: "nat \<Rightarrow> string" where
  \<comment> \<open>\<^verbatim>\<open>str(n)\<close> of a natural number, as an f-string renders \<^verbatim>\<open>len(xs)\<close>\<close>
  "str_nat n = (if n < 10 then [char_of (48 + n)]
                else str_nat (n div 10) @ [char_of (48 + n mod 10)])"
  by pat_completeness auto
termination
  by (relation "measure id") auto

declare str_nat.simps [simp del]

definition load_store :: "store_env \<Rightarrow> FHIRStore \<Rightarrow> error + FHIRStore" where
  \<comment> \<open>\<^verbatim>\<open>_load_store\<close> of mcp_server.py and \<^verbatim>\<open>_ensure_store\<close> of nodes.py, which are the same code
      on the \<^verbatim>\<open>_store\<close> of their module\<close>
  "load_store env s =
     (case list_patients (env_str env) s of
        Inl err \<Rightarrow> Inl err
      | Inr listing \<Rightarrow>
          if listing = []
          then load_directory (env_str env) (env_read_json env) s (env_data_dir env)
          else Inr s)"

definition listed ::
  "string \<Rightarrow> string \<Rightarrow> string \<Rightarrow> (json \<Rightarrow> error + string) \<Rightarrow> json list \<Rightarrow> error + string" where
  \<comment> \<open>the common body of \<^verbatim>\<open>consultar_condicoes\<close>, \<^verbatim>\<open>consultar_medicamentos\<close> and
      \<^verbatim>\<open>consultar_sinais_vitais\<close>: a sentence when there is nothing, else a titled list\<close>
  "listed nothing patient_id title fmt resources =
     (if resources = [] then Inr (nothing @ patient_id @ ''.'')
      else case map_result fmt resources of
             Inl err \<Rightarrow> Inl err
           | Inr lines \<Rightarrow>
               Inr (title @ '' ('' @ str_nat (length resources) @ ''):'' @ [CHR 0x0A]
                      @ py_join [CHR 0x0A] (map (\<lambda>l. ''- '' @ l) lines)))"

definition consultar_paciente ::
  "store_env \<Rightarrow> formatters \<Rightarrow> string \<Rightarrow> (string, FHIRStore) io" where
  "consultar_paciente env fm patient_id s =
     (case load_store env s of
        Inl err \<Rightarrow> (Inl err, s)
      | Inr s1 \<Rightarrow>
          (case get_patient s1 (KStr patient_id) of
             None \<Rightarrow> (Inr (''Paciente n'' @ [CHR 0xE3] @ ''o encontrado: '' @ patient_id), s1)
           | Some patient \<Rightarrow> (format_patient fm patient, s1)))"

definition consultar_condicoes ::
  "store_env \<Rightarrow> formatters \<Rightarrow> string \<Rightarrow> (string, FHIRStore) io" where
  "consultar_condicoes env fm patient_id s =
     (case load_store env s of
        Inl err \<Rightarrow> (Inl err, s)
      | Inr s1 \<Rightarrow>
          (listed (''Nenhuma condi'' @ [CHR 0xE7, CHR 0xE3] @ ''o registrada para o paciente '')
             patient_id (''Condi'' @ [CHR 0xE7, CHR 0xF5] @ ''es cl'' @ [CHR 0xED] @ ''nicas'')
             (format_condition fm) (get_conditions s1 (KStr patient_id)), s1))"

definition consultar_medicamentos ::
  "store_env \<Rightarrow> formatters \<Rightarrow> string \<Rightarrow> (string, FHIRStore) io" where
  "consultar_medicamentos env fm patient_id s =
     (case load_store env s of
        Inl err \<Rightarrow> (Inl err, s)
      | Inr s1 \<Rightarrow>
          (listed ''Nenhum medicamento registrado para o paciente '' patient_id ''Medicamentos''
             (format_medication fm) (get_medications s1 (KStr patient_id)), s1))"

definition consultar_sinais_vitais ::
  "store_env \<Rightarrow> formatters \<Rightarrow> string \<Rightarrow> (string, FHIRStore) io" where
  "consultar_sinais_vitais env fm patient_id s =
     (case load_store env s of
        Inl err \<Rightarrow> (Inl err, s)
      | Inr s1 \<Rightarrow>
          (listed ''Nenhum sinal vital registrado para o paciente '' patient_id ''Sinais vitais''
             (format_observation fm) (get_observations s1 (KStr patient_id)), s1))"

section \<open>The guideline retriever (rag/retriever.py)\<close>

text \<open>
  A similarity score is a Python float. It is modelled as a real number: the code only
  compares scores and hands them to the formatter.
\<close>

record scored_point =
  pt_text :: "string option"          \<comment> \<open>\<^verbatim>\<open>point.payload["text"]\<close>\<close>
  pt_source :: "string option"        \<comment> \<open>\<^verbatim>\<open>point.payload["source"]\<close>\<close>
  pt_chunk_index :: "int option"      \<comment> \<open>\<^verbatim>\<open>point.payload.get("chunk_index", 0)\<close>\<close>
  pt_score :: real                    \<comment> \<open>\<^verbatim>\<open>point.score\<close>\<close>

record guideline =
  g_text :: string
  g_source :: string
  g_chunk_index :: int
  g_score :: real

record 'w vector_services =
  embed_text :: "string \<Rightarrow> (real list, 'w) io"
    \<comment> \<open>\<^verbatim>\<open>embed_text\<close> of ingest.py: the embedding service\<close>
  query_points :: "real list \<Rightarrow> nat \<Rightarrow> real \<Rightarrow> (scored_point list, 'w) io"
    \<comment> \<open>\<^verbatim>\<open>client.query_points(collection_name, query, limit, score_threshold).points\<close> on the
        client and collection of the settings\<close>

definition DEFAULT_TOP_K :: nat where
  "DEFAULT_TOP_K = 5"

definition DEFAULT_SCORE_THRESHOLD :: real where
  "DEFAULT_SCORE_THRESHOLD = 0.3"

definition point_result :: "scored_point \<Rightarrow> error + guideline" where
  \<comment> \<open>the dict built for one point\<close>
  "point_result point =
     (case pt_text point of
        None \<Rightarrow> Inl (KeyError ''text'')
      | Some t \<Rightarrow>
          (case pt_source point of
             None \<Rightarrow> Inl (KeyError ''source'')
           | Some src \<Rightarrow>
               Inr \<lparr>g_text = t, g_source = src, g_chunk_index = get_or 0 (pt_chunk_index point),
                    g_score = pt_score point\<rparr>))"

definition retrieve ::
  "'w vector_services \<Rightarrow> string \<Rightarrow> nat \<Rightarrow> real \<Rightarrow> (guideline list, 'w) io" where
  "retrieve sv query top_k score_threshold w =
     (case embed_text sv query w of
        (Inl err, w1) \<Rightarrow> (Inl err, w1)
      | (Inr query_vector, w1) \<Rightarrow>
          (case query_points sv query_vector top_k score_threshold w1 of
             (Inl err, w2) \<Rightarrow> (Inl err, w2)
           | (Inr points, w2) \<Rightarrow> (map_result point_result points, w2)))"

definition format_context :: "(real \<Rightarrow> string) \<Rightarrow> guideline list \<Rightarrow> string" where
  \<comment> \<open>\<open>fmt2\<close> is the float format \<^verbatim>\<open>:.2f\<close>\<close>
  "format_context fmt2 results =
     (if results = [] then ''Nenhuma diretriz relevante encontrada.''
      else py_join ([CHR 0x0A, CHR 0x0A] @ ''---'' @ [CHR 0x0A, CHR 0x0A])
             (map (\<lambda>r. ''[Fonte: '' @ g_source r @ '' | Relev'' @ [CHR 0xE2] @ ''ncia: ''
                          @ fmt2 (g_score r) @ '']'' @ [CHR 0x0A] @ g_text r) results))"

section \<open>Workflow nodes (agent/nodes.py, agent/state.py)\<close>

record agent_state =
  \<comment> \<open>\<^verbatim>\<open>AgentState\<close>, a \<^verbatim>\<open>TypedDict\<close> with \<^verbatim>\<open>total=False\<close>: every key may be absent\<close>
  patient_note :: "string option"
  extracted_entities :: "json option"
  patient_id :: "string option"
  needs_retrieval :: "bool option"
  retrieval_queries :: "string list option"
  guidelines :: "string option"
  patient_data :: "string option"
  report :: "(string \<times> json) list option"
  evaluation :: "(string \<times> json) list option"

definition no_update :: agent_state where
  \<comment> \<open>the empty dict; a node returns the keys that it sets\<close>
  "no_update = \<lparr>patient_note = None, extracted_entities = None, patient_id = None,
     needs_retrieval = None, retrieval_queries = None, guidelines = None, patient_data = None,
     report = None, evaluation = None\<rparr>"







fun merge_results ::
  "guideline list \<Rightarrow> guideline list \<times> string set \<Rightarrow> guideline list \<times> string set" where
  \<comment> \<open>the inner loop of \<^verbatim>\<open>retrieve_guidelines\<close> on \<open>(all_results, seen_texts)\<close>\<close>
  "merge_results [] (all_results, seen_texts) = (all_results, seen_texts)"
| "merge_results (r # rs) (all_results, seen_texts) =
     (if g_text r \<notin> seen_texts
      then merge_results rs (all_results @ [r], insert (g_text r) seen_texts)
      else merge_results rs (all_results, seen_texts))"

fun fan_out ::
  "'w vector_services \<Rightarrow> string list \<Rightarrow> guideline list \<times> string set
     \<Rightarrow> (guideline list \<times> string set, 'w) io" where
  \<comment> \<open>the outer loop: \<^verbatim>\<open>retrieve(query, top_k=3)\<close>, the threshold being the default\<close>
  "fan_out sv [] acc w = (Inr acc, w)"
| "fan_out sv (query # queries) acc w =
     (case retrieve sv query 3 DEFAULT_SCORE_THRESHOLD w of
        (Inl err, w1) \<Rightarrow> (Inl err, w1)
      | (Inr results, w1) \<Rightarrow> fan_out sv queries (merge_results results acc) w1)"

definition retrieve_guidelines ::
  "'w vector_services \<Rightarrow> (real \<Rightarrow> string) \<Rightarrow> agent_state \<Rightarrow> (agent_state, 'w) io" where
  \<comment> \<open>\<^verbatim>\<open>all_results.sort(key=score, reverse=True)\<close> is a stable sort by descending score\<close>
  "retrieve_guidelines sv fmt2 state w =
     (let queries = get_or [] (retrieval_queries state)
      in if queries = []
         then (Inr (no_update\<lparr>guidelines := Some ''Nenhuma consulta de diretriz solicitada.''\<rparr>), w)
         else case fan_out sv queries ([], {}) w of
                (Inl err, w1) \<Rightarrow> (Inl err, w1)
              | (Inr (all_results, seen_texts), w1) \<Rightarrow>
                  (Inr (no_update\<lparr>guidelines :=
                     Some (format_context fmt2
                             (take 5 (sort_key (\<lambda>r. - g_score r) all_results)))\<rparr>), w1))"

fun join_sections :: "(string, 's) io list \<Rightarrow> string list \<Rightarrow> (string list, 's) io" where
  \<comment> \<open>the list display of \<^verbatim>\<open>fetch_patient_data\<close>: its calls run in order, an exception ends it\<close>
  "join_sections [] sections s = (Inr sections, s)"
| "join_sections (tool # tools) sections s =
     (case tool s of
        (Inl err, s1) \<Rightarrow> (Inl err, s1)
      | (Inr section, s1) \<Rightarrow> join_sections tools (sections @ [section]) s1)"

definition fetch_patient_data ::
  "store_env \<Rightarrow> formatters \<Rightarrow> agent_state \<Rightarrow> (agent_state, FHIRStore) io" where
  \<comment> \<open>on the \<^verbatim>\<open>_store\<close> of mcp_server.py\<close>
  "fetch_patient_data env fm state s =
     (let pid = get_or [] (patient_id state)
      in if pid = []
         then (Inr (no_update\<lparr>patient_data :=
                 Some (''Paciente n'' @ [CHR 0xE3] @ ''o identificado.'')\<rparr>), s)
         else case join_sections
                     [consultar_paciente env fm pid, consultar_condicoes env fm pid,
                      consultar_medicamentos env fm pid, consultar_sinais_vitais env fm pid] [] s of
                (Inl err, s1) \<Rightarrow> (Inl err, s1)
              | (Inr sections, s1) \<Rightarrow>
                  (Inr (no_update\<lparr>patient_data :=
                     Some (py_join [CHR 0x0A, CHR 0x0A] sections)\<rparr>), s1))"

definition no_report_evaluation :: "(string \<times> json) list" where
  \<comment> \<open>\<^verbatim>\<open>{"overall": {"score": 0, "feedback": "Nenhum relat\<dots>rio gerado."}}\<close>\<close>
  "no_report_evaluation =
     [(''overall'', JObject [(''score'', JInt 0),
         (''feedback'', JString (''Nenhum relat'' @ [CHR 0xF3] @ ''rio gerado.''))])]"

definition evaluate_report ::
  "((string \<times> json) list \<Rightarrow> ((string \<times> json) list, 'w) io) \<Rightarrow> agent_state
     \<Rightarrow> (agent_state, 'w) io" where
  \<comment> \<open>\<open>llm_evaluate_report\<close> is the caller imported from llm.py\<close>
  "evaluate_report llm_evaluate_report state w =
     (let rep = get_or [] (report state)
      in if rep = [] then (Inr (no_update\<lparr>evaluation := Some no_report_evaluation\<rparr>), w)
         else case llm_evaluate_report rep w of
                (Inl err, w1) \<Rightarrow> (Inl err, w1)
              | (Inr ev, w1) \<Rightarrow> (Inr (no_update\<lparr>evaluation := Some ev\<rparr>), w1))"

subsection \<open>Notions used to state the properties of the nodes\<close>






fun first_occurrences :: "guideline list \<Rightarrow> guideline list" where
  \<comment> \<open>deduplication by exact chunk text, the first occurrence winning\<close>
  "first_occurrences [] = []"
| "first_occurrences (r # rs) = r # first_occurrences (filter (\<lambda>x. g_text x \<noteq> g_text r) rs)"

fun retrieve_each :: "'w vector_services \<Rightarrow> string list \<Rightarrow> (guideline list list, 'w) io" where
  \<comment> \<open>retrieval run once per query, in list order, with limit 3 and the default threshold;
      the first failure ends the run\<close>
  "retrieve_each sv [] w = (Inr [], w)"
| "retrieve_each sv (query # queries) w =
     (case retrieve sv query 3 DEFAULT_SCORE_THRESHOLD w of
        (Inl err, w1) \<Rightarrow> (Inl err, w1)
      | (Inr results, w1) \<Rightarrow>
          (case retrieve_each sv queries w1 of
             (Inl err, w2) \<Rightarrow> (Inl err, w2)
           | (Inr rest, w2) \<Rightarrow> (Inr (results # rest), w2)))"

definition merged_top5 :: "guideline list list \<Rightarrow> guideline list" where
  \<comment> \<open>merge the per-query results, deduplicate, sort by descending score (stably), keep five\<close>
  "merged_top5 rss = take 5 (sort_key (\<lambda>r. - g_score r) (first_occurrences (concat rss)))"

definition limit_respected :: "'w vector_services \<Rightarrow> bool" where
  \<comment> \<open>the contract of the vector index: a query returns at most \<open>limit\<close> points\<close>
  "limit_respected sv =
     (\<forall>v k th w points w1. query_points sv v k th w = (Inr points, w1) \<longrightarrow> length points \<le> k)"

definition joao :: json where
  "joao = mk_resource ''Patient'' ''patient-joao-001''
     [(''name'', JArray [JObject [(''given'', JArray [JString (''Jo'' @ [CHR 0xE3] @ ''o''),
                                                      JString ''Carlos'']),
                                   (''family'', JString ''Silva'')]])]"

definition joao_store :: FHIRStore where
  \<comment> \<open>a store with two patients, Maria Santos first\<close>
  "joao_store = \<lparr>patients = [(KStr ''aaaa'', maria), (KStr ''patient-joao-001'', joao)],
     patient_index = [KStr ''aaaa'' \<mapsto> Map.empty, KStr ''patient-joao-001'' \<mapsto> Map.empty],
     ref_to_patient_id = [KStr ''Patient/aaaa'' \<mapsto> KStr ''aaaa'',
                          KStr ''Patient/patient-joao-001'' \<mapsto> KStr ''patient-joao-001'']\<rparr>"


definition no_files :: store_env where
  \<comment> \<open>an empty data directory\<close>
  "no_files = \<lparr>env_str = scalar_str,
               env_read_json = (\<lambda>path. Inl (ExternalError ''FileNotFoundError'')),
               env_data_dir = \<lparr>dir_name = ''synthea'', dir_json_files = []\<rparr>\<rparr>"



definition chunk :: "string \<Rightarrow> real \<Rightarrow> scored_point" where
  "chunk t sc = \<lparr>pt_text = Some t, pt_source = Some ''has.txt'', pt_chunk_index = None,
                 pt_score = sc\<rparr>"

definition hit :: "string \<Rightarrow> real \<Rightarrow> guideline" where
  "hit t sc = \<lparr>g_text = t, g_source = ''has.txt'', g_chunk_index = 0, g_score = sc\<rparr>"

definition logging_index :: "(string list \<times> nat list) vector_services" where
  \<comment> \<open>a vector index that holds four chunks for each of two embeddings and returns the first
      \<open>limit\<close> of them; the world is the log of the texts embedded and of the limits asked\<close>
  "logging_index =
     \<lparr>embed_text = (\<lambda>text (texts, limits). (Inr [real (length text)], (texts @ [text], limits))),
      query_points = (\<lambda>v k th (texts, limits).
        (Inr (take k (if v = [2]
                      then [chunk ''A'' 0.9, chunk ''B'' 0.5, chunk ''C'' 0.4, chunk ''D'' 0.35]
                      else [chunk ''B'' 0.95, chunk ''E'' 0.6, chunk ''F'' 0.55, chunk ''G'' 0.5])),
         (texts, limits @ [k])))\<rparr>"

section \<open>The language-model gateway (llm.py)\<close>













subsection \<open>Notions used to state the properties of the gateway\<close>








chapter \<open>Properties\<close>

section \<open>Strings\<close>

lemma of_char_lower_char:
  "(of_char (lower_char c) :: nat) =
     (let n = of_char c
      in if (65 \<le> n \<and> n \<le> 90) \<or> (192 \<le> n \<and> n \<le> 222 \<and> n \<noteq> 215) then n + 32 else n)"
  by (auto simp: lower_char_def Let_def)

lemma isspace_lower_char: "isspace (lower_char c) = isspace c"
  unfolding isspace_def of_char_lower_char Let_def by auto

lemma dropWhile_isspace_lower:
  "dropWhile isspace (py_lower s) = py_lower (dropWhile isspace s)"
  by (induction s) (simp_all add: py_lower_def isspace_lower_char)

lemma py_strip_lower: "py_strip (py_lower s) = py_lower (py_strip s)"
proof -
  have "rev (py_lower s) = py_lower (rev s)" for s
    by (simp add: py_lower_def rev_map)
  then show ?thesis
    by (simp add: py_strip_def dropWhile_isspace_lower)
qed

lemmas str_eval =
  py_strip_def isspace_def py_lower_def lower_char_def char_of_eq_iff py_split_def startswith_def

section \<open>The record store\<close>



lemma py_get_error: "py_get v key d = Inl err \<Longrightarrow> \<not> is_object v"
  by (cases v) (auto simp: py_get_def is_object_def)






















text \<open>
  Claim C6, as stated, fails for \<^verbatim>\<open>get_patient\<close>: for an unknown id it returns Python's
  \<open>None\<close> (\<^verbatim>\<open>self._patients.get(patient_id)\<close>, annotated \<^verbatim>\<open>Resource | None\<close>), which is
  no empty sequence; \<^verbatim>\<open>consultar_paciente\<close> tests the result with \<^verbatim>\<open>is None\<close>.
\<close>

theorem get_patient_unknown_counterexample:
  "py_optional (get_patient FHIRStore_init (KStr ''nonexistent'')) = PyNone
   \<and> py_optional (get_patient FHIRStore_init (KStr ''nonexistent'')) \<noteq> PySeq []"
  by (simp add: py_optional_def get_patient_def FHIRStore_init_def)

text \<open>
  Claim C6, amended. For every store contents, \<^verbatim>\<open>get_patient\<close> returns the absent value
  \<open>None\<close> for a patient id that the store does not hold, and \<^verbatim>\<open>get_resources\<close>,
  \<^verbatim>\<open>get_conditions\<close>, \<^verbatim>\<open>get_medications\<close> and \<^verbatim>\<open>get_observations\<close> return the empty list
  when the patient id is unknown to the index or the patient has no list of the resource
  type. None of them has a failing branch.
\<close>

theorem accessors_unknown:
  "(pid \<notin> fst ` set (patients s) \<longrightarrow> py_optional (get_patient s pid) = PyNone)
   \<and> (\<not> known_patient s pid \<longrightarrow>
        get_resources s pid t = [] \<and> get_conditions s pid = []
        \<and> get_medications s pid = [] \<and> get_observations s pid = [])
   \<and> (patient_index s pid = Some by_type \<and> by_type t = None \<longrightarrow> get_resources s pid t = [])
   \<and> (patient_index s pid = Some by_type \<and> by_type (KStr ''Condition'') = None
        \<longrightarrow> get_conditions s pid = [])
   \<and> (patient_index s pid = Some by_type \<and> by_type (KStr ''MedicationRequest'') = None
        \<longrightarrow> get_medications s pid = [])
   \<and> (patient_index s pid = Some by_type \<and> by_type (KStr ''Observation'') = None
        \<longrightarrow> get_observations s pid = [])"
proof -
  have pat: "pid \<notin> fst ` set (patients s) \<longrightarrow> py_optional (get_patient s pid) = PyNone"
  proof
    assume "pid \<notin> fst ` set (patients s)"
    then have "map_of (patients s) pid = None"
      by (simp add: map_of_eq_None_iff)
    then show "py_optional (get_patient s pid) = PyNone"
      by (simp add: py_optional_def get_patient_def)
  qed
  have unknown: "get_resources s pid t' = []" if "\<not> known_patient s pid" for t'
    using that by (simp add: known_patient_def get_resources_def get_or_def)
  have no_type: "get_resources s pid t' = []"
    if "patient_index s pid = Some by_type" "by_type t' = None" for t'
    using that by (simp add: get_resources_def get_or_def)
  from pat unknown no_type show ?thesis
    by (simp add: get_conditions_def get_medications_def get_observations_def)
qed

theorem accessors_unknown_witness:
  "py_optional (get_patient maria_store (KStr ''nonexistent'')) = PyNone
   \<and> get_conditions maria_store (KStr ''nonexistent'') = []
   \<and> get_medications maria_store (KStr ''nonexistent'') = []
   \<and> get_observations maria_store (KStr ''nonexistent'') = []
   \<and> get_resources maria_store (KStr ''aaaa'') (KStr ''Procedure'') = []
   \<and> get_medications maria_store (KStr ''aaaa'') = []
   \<and> get_observations maria_store (KStr ''aaaa'') = []
   \<and> get_conditions maria_store (KStr ''aaaa'') = [diabetes]"
proof -
  have known: "patient_index maria_store (KStr ''aaaa'') = Some [KStr ''Condition'' \<mapsto> [diabetes]]"
      "\<not> known_patient maria_store (KStr ''nonexistent'')"
      "KStr ''nonexistent'' \<notin> fst ` set (patients maria_store)"
    by (simp_all add: maria_store_def known_patient_def)
  have cond: "get_conditions maria_store (KStr ''aaaa'') = [diabetes]"
    by (simp add: get_conditions_def get_resources_def maria_store_def get_or_def)
  from known cond
    accessors_unknown [of "KStr ''nonexistent''" maria_store "KStr ''Procedure''"]
    accessors_unknown [of "KStr ''aaaa''" maria_store "KStr ''Procedure''"
                          "[KStr ''Condition'' \<mapsto> [diabetes]]"]
  show ?thesis by simp
qed

section \<open>Patient names\<close>


lemma py_strip_nonempty_or: "(if x = [] then ''Desconhecido'' else x) \<noteq> []"
  by simp




section \<open>Drug-interaction lookup\<close>

lemma normalize_drug_name_lower:
  "py_lower a = py_lower a' \<Longrightarrow> normalize_drug_name a = normalize_drug_name a'"
  by (metis normalize_drug_name_def py_strip_lower)

text \<open>
  Claim C8, as stated, fails: two names that differ in whitespace inside the name get
  different verdicts. \<open>contraste iodado\<close> with one space is a key of the table,
  with two spaces it is not.
\<close>

theorem interaction_inner_whitespace_counterexample:
  "same_up_to_whitespace ''contraste iodado'' ''contraste  iodado''
   \<and> interaction_of ''metformina'' ''contraste iodado''
       \<noteq> interaction_of ''metformina'' ''contraste  iodado''"
  by (simp add: same_up_to_whitespace_def interaction_of_def normalize_drug_name_def
        str_eval DRUG_INTERACTIONS_def doubleton_eq_iff)

text \<open>
  Claim C8, amended. The verdict of the drug-interaction lookup (the interaction text found
  in the table, or none) is the same for (A, B) and (B, A), and it is unchanged by
  differences in letter case and in leading and trailing whitespace of the two names.
\<close>

theorem interaction_symmetric_case_strip:
  "interaction_of a b = interaction_of b a
   \<and> (py_lower a = py_lower a' \<and> py_lower b = py_lower b'
        \<longrightarrow> interaction_of a b = interaction_of a' b')
   \<and> (py_strip a = py_strip a' \<and> py_strip b = py_strip b'
        \<longrightarrow> interaction_of a b = interaction_of a' b')"
proof -
  have sym: "interaction_of a b = interaction_of b a"
    by (simp add: interaction_of_def insert_commute)
  have low: "interaction_of a b = interaction_of a' b'"
    if "py_lower a = py_lower a'" "py_lower b = py_lower b'"
    using that
    by (simp add: interaction_of_def normalize_drug_name_lower [of a a']
          normalize_drug_name_lower [of b b'])
  have str: "interaction_of a b = interaction_of a' b'"
    if "py_strip a = py_strip a'" "py_strip b = py_strip b'"
    using that by (simp add: interaction_of_def normalize_drug_name_def)
  from sym low str show ?thesis by blast
qed

theorem interaction_symmetric_case_strip_witness:
  "interaction_of ''Losartana'' ''IBUPROFENO'' = interaction_of ''ibuprofeno'' ''losartana''
   \<and> interaction_of ''  losartana '' ''ibuprofeno'' = interaction_of ''losartana'' ''ibuprofeno  ''
   \<and> interaction_of ''ibuprofeno'' ''losartana'' \<noteq> None"
proof -
  have l: "py_lower ''Losartana'' = py_lower ''losartana''"
          "py_lower ''IBUPROFENO'' = py_lower ''ibuprofeno''"
    by (simp_all add: str_eval)
  have s: "py_strip ''  losartana '' = py_strip ''losartana''"
          "py_strip ''ibuprofeno'' = py_strip ''ibuprofeno  ''"
    by (simp_all add: str_eval)
  have found: "interaction_of ''ibuprofeno'' ''losartana'' \<noteq> None"
    by (simp add: interaction_of_def normalize_drug_name_def str_eval DRUG_INTERACTIONS_def
          doubleton_eq_iff)
  from l s found
    interaction_symmetric_case_strip [of "''Losartana''" "''IBUPROFENO''" "''losartana''" "''ibuprofeno''"]
    interaction_symmetric_case_strip [of "''  losartana ''" "''ibuprofeno''" "''losartana''" "''ibuprofeno  ''"]
    interaction_symmetric_case_strip [of "''losartana''" "''ibuprofeno''"]
  show ?thesis by metis
qed

section \<open>Guideline ingestion\<close>

lemma load_documents_from_eq:
  "\<forall>p\<in>set paths. supported p \<longrightarrow> loads_ok fs p \<Longrightarrow>
   load_documents_from fs docs paths =
     Inr (docs @ map (\<lambda>p. \<lparr>doc_source = p_name p, doc_text = projr (load_document fs p)\<rparr>)
                   (filter supported paths))"
proof (induction paths arbitrary: docs)
  case Nil
  then show ?case by simp
next
  case (Cons p ps)
  then show ?case
    by (cases "load_document fs p") (auto simp: supported_def loads_ok_def)
qed

text \<open>
  Claim C9. \<^verbatim>\<open>load_document\<close> of a path whose extension is not \<open>.txt\<close>, \<open>.md\<close> or
  \<open>.pdf\<close> (in any letter case) fails with the \<open>ValueError\<close> whose message names the
  lower-cased extension and the path. \<^verbatim>\<open>load_all_documents\<close> reads every supported file of
  the directory: when the directory can be listed and each supported file can be read, it
  returns one document per supported path, in the order of the file names, holding the
  file name and the text that \<^verbatim>\<open>load_document\<close> returns for it; unsupported entries are
  skipped.
\<close>

theorem load_step_supported_files:
  "(\<not> supported path \<longrightarrow>
      load_document fs path
        = Inl (ValueError (''Unsupported file type: '' @ py_lower (p_suffix path)
                             @ '' ('' @ p_str path @ '')'')))
   \<and> (iterdir fs directory = Inr paths \<and> (\<forall>p\<in>set paths. supported p \<longrightarrow> loads_ok fs p) \<longrightarrow>
        load_all_documents fs directory
          = Inr (map (\<lambda>p. \<lparr>doc_source = p_name p, doc_text = projr (load_document fs p)\<rparr>)
                   (filter supported (sort_key p_name paths))))"
proof -
  have unsupported: "\<not> supported path \<longrightarrow>
      load_document fs path
        = Inl (ValueError (''Unsupported file type: '' @ py_lower (p_suffix path)
                             @ '' ('' @ p_str path @ '')''))"
    by (auto simp: supported_def load_document_def Let_def)
  have every: "load_all_documents fs directory
          = Inr (map (\<lambda>p. \<lparr>doc_source = p_name p, doc_text = projr (load_document fs p)\<rparr>)
                   (filter supported (sort_key p_name paths)))"
    if "iterdir fs directory = Inr paths" "\<forall>p\<in>set paths. supported p \<longrightarrow> loads_ok fs p"
    using that load_documents_from_eq [of "sort_key p_name paths" fs "[]"]
    by (simp add: load_all_documents_def)
  from unsupported every show ?thesis by blast
qed

theorem load_step_supported_files_witness:
  "load_document sample_files \<lparr>p_str = ''g/data.csv'', p_name = ''data.csv'', p_suffix = ''.csv''\<rparr>
     = Inl (ValueError ''Unsupported file type: .csv (g/data.csv)'')
   \<and> load_all_documents sample_files ''g''
     = Inr [\<lparr>doc_source = ''dm2.pdf'', doc_text = ''p1'' @ [CHR 0x0A, CHR 0x0A]\<rparr>,
            \<lparr>doc_source = ''has.TXT'', doc_text = ''Diretriz HAS''\<rparr>]"
  using load_step_supported_files
          [of "\<lparr>p_str = ''g/data.csv'', p_name = ''data.csv'', p_suffix = ''.csv''\<rparr>"
              sample_files "''g''"
              "[\<lparr>p_str = ''g/has.TXT'', p_name = ''has.TXT'', p_suffix = ''.TXT''\<rparr>,
                \<lparr>p_str = ''g/data.csv'', p_name = ''data.csv'', p_suffix = ''.csv''\<rparr>,
                \<lparr>p_str = ''g/dm2.pdf'', p_name = ''dm2.pdf'', p_suffix = ''.pdf''\<rparr>]"]
  by (simp add: supported_def loads_ok_def sample_files_def load_document_def load_pdf_file_def
        load_text_file_def str_eval get_or_def less_eq_char_def less_char_def)

section \<open>Workflow nodes\<close>










text \<open>
  Claim C5. For every workflow state, \<^verbatim>\<open>retrieve_guidelines\<close> without queries (the key absent
  or the list empty), \<^verbatim>\<open>fetch_patient_data\<close> without a patient id (absent or empty) and
  \<^verbatim>\<open>evaluate_report\<close> without a report (absent or empty) return their fixed sentinel value; they
  raise nothing, and they leave the state of the external services and of the stores as it
  is, whatever the services are: none is called.
\<close>

theorem node_short_circuits:
  "(retrieval_queries state = None \<or> retrieval_queries state = Some [] \<longrightarrow>
      retrieve_guidelines sv fmt2 state w
        = (Inr (no_update\<lparr>guidelines := Some ''Nenhuma consulta de diretriz solicitada.''\<rparr>), w))
   \<and> (patient_id state = None \<or> patient_id state = Some [] \<longrightarrow>
      fetch_patient_data env fm state s
        = (Inr (no_update\<lparr>patient_data :=
               Some (''Paciente n'' @ [CHR 0xE3] @ ''o identificado.'')\<rparr>), s))
   \<and> (report state = None \<or> report state = Some [] \<longrightarrow>
      evaluate_report llm_evaluate_report state w'
        = (Inr (no_update\<lparr>evaluation := Some no_report_evaluation\<rparr>), w'))"
proof -
  have guide: "retrieval_queries state = None \<or> retrieval_queries state = Some [] \<longrightarrow>
      retrieve_guidelines sv fmt2 state w
        = (Inr (no_update\<lparr>guidelines := Some ''Nenhuma consulta de diretriz solicitada.''\<rparr>), w)"
    by (auto simp: retrieve_guidelines_def get_or_def)
  have fetch: "patient_id state = None \<or> patient_id state = Some [] \<longrightarrow>
      fetch_patient_data env fm state s
        = (Inr (no_update\<lparr>patient_data :=
               Some (''Paciente n'' @ [CHR 0xE3] @ ''o identificado.'')\<rparr>), s)"
    by (auto simp: fetch_patient_data_def get_or_def)
  have eval: "report state = None \<or> report state = Some [] \<longrightarrow>
      evaluate_report llm_evaluate_report state w'
        = (Inr (no_update\<lparr>evaluation := Some no_report_evaluation\<rparr>), w')"
    by (auto simp: evaluate_report_def get_or_def)
  from guide fetch eval show ?thesis by blast
qed

theorem node_short_circuits_witness:
  "retrieve_guidelines logging_index (\<lambda>x. ''0.00'') (no_update\<lparr>retrieval_queries := Some []\<rparr>)
       ([], [])
     = (Inr (no_update\<lparr>guidelines := Some ''Nenhuma consulta de diretriz solicitada.''\<rparr>),
        ([], []))
   \<and> fetch_patient_data no_files
       \<lparr>format_patient = (\<lambda>r. Inr ''p''), format_condition = (\<lambda>r. Inr ''c''),
        format_medication = (\<lambda>r. Inr ''m''), format_observation = (\<lambda>r. Inr ''o'')\<rparr>
       (no_update\<lparr>patient_id := Some []\<rparr>) joao_store
     = (Inr (no_update\<lparr>patient_data :=
          Some (''Paciente n'' @ [CHR 0xE3] @ ''o identificado.'')\<rparr>), joao_store)
   \<and> evaluate_report (\<lambda>rep w. (Inr rep, Suc w)) (no_update\<lparr>report := Some []\<rparr>) (0::nat)
     = (Inr (no_update\<lparr>evaluation := Some no_report_evaluation\<rparr>), 0)"
proof -
  note guide = node_short_circuits
          [where state = "no_update\<lparr>retrieval_queries := Some []\<rparr>" and sv = logging_index
             and ?fmt2.0 = "\<lambda>x. ''0.00''" and w = "([], [])", THEN conjunct1]
  note fetch = node_short_circuits
          [where state = "no_update\<lparr>patient_id := Some []\<rparr>" and env = no_files
             and fm = "\<lparr>format_patient = (\<lambda>r. Inr ''p''), format_condition = (\<lambda>r. Inr ''c''),
                format_medication = (\<lambda>r. Inr ''m''), format_observation = (\<lambda>r. Inr ''o'')\<rparr>"
             and s = joao_store, THEN conjunct2, THEN conjunct1]
  note eval = node_short_circuits
          [where state = "no_update\<lparr>report := Some []\<rparr>"
             and llm_evaluate_report = "\<lambda>rep w. (Inr rep, Suc w)" and w' = "0::nat",
           THEN conjunct2, THEN conjunct2]
  from guide fetch eval show ?thesis by simp
qed

section \<open>Multi-query guideline retrieval\<close>

lemma merge_results_eq:
  "merge_results rs (acc, seen) =
     (acc @ first_occurrences (filter (\<lambda>r. g_text r \<notin> seen) rs), seen \<union> g_text ` set rs)"
proof (induction rs arbitrary: acc seen)
  case Nil
  then show ?case by simp
next
  case (Cons r rs)
  have "filter (\<lambda>x. g_text x \<noteq> g_text r) (filter (\<lambda>x. g_text x \<notin> seen) rs)
      = filter (\<lambda>x. g_text x \<notin> insert (g_text r) seen) rs"
    by (auto intro: filter_cong)
  with Cons show ?case by auto
qed

lemma first_occurrences_append:
  "first_occurrences (xs @ ys) =
     first_occurrences xs @ first_occurrences (filter (\<lambda>y. g_text y \<notin> g_text ` set xs) ys)"
proof (induction xs arbitrary: ys rule: first_occurrences.induct)
  case 1
  then show ?case by simp
next
  case (2 r rs)
  let ?ne = "\<lambda>x. g_text x \<noteq> g_text r"
  have e1: "first_occurrences (filter ?ne rs @ filter ?ne ys)
      = first_occurrences (filter ?ne rs)
        @ first_occurrences (filter (\<lambda>y. g_text y \<notin> g_text ` set (filter ?ne rs)) (filter ?ne ys))"
    by (rule "2.IH")
  have e2: "filter (\<lambda>y. g_text y \<notin> g_text ` set (filter ?ne rs)) (filter ?ne ys)
      = filter (\<lambda>y. g_text y \<notin> g_text ` set (r # rs)) ys"
    unfolding filter_filter by (rule filter_cong) auto
  show ?case
    by (simp only: append_Cons first_occurrences.simps filter_append e1 e2)
qed

lemma first_occurrences_unseen_append:
  "first_occurrences (filter (\<lambda>r. g_text r \<notin> seen) (rs @ ys))
     = first_occurrences (filter (\<lambda>r. g_text r \<notin> seen) rs)
       @ first_occurrences (filter (\<lambda>r. g_text r \<notin> seen \<union> g_text ` set rs) ys)"
proof -
  have "filter (\<lambda>y. g_text y \<notin> g_text ` set (filter (\<lambda>r. g_text r \<notin> seen) rs))
          (filter (\<lambda>r. g_text r \<notin> seen) ys)
      = filter (\<lambda>r. g_text r \<notin> seen \<union> g_text ` set rs) ys"
    unfolding filter_filter by (rule filter_cong) auto
  then show ?thesis
    by (simp only: filter_append first_occurrences_append)
qed

lemma fan_out_eq:
  "fan_out sv queries (acc, seen) w =
     (case retrieve_each sv queries w of
        (Inl err, w1) \<Rightarrow> (Inl err, w1)
      | (Inr rss, w1) \<Rightarrow>
          (Inr (acc @ first_occurrences (filter (\<lambda>r. g_text r \<notin> seen) (concat rss)),
                seen \<union> g_text ` set (concat rss)), w1))"
proof (induction queries arbitrary: acc seen w)
  case Nil
  then show ?case by simp
next
  case (Cons q qs)
  obtain res w1 where r: "retrieve sv q 3 DEFAULT_SCORE_THRESHOLD w = (res, w1)"
    by (cases "retrieve sv q 3 DEFAULT_SCORE_THRESHOLD w")
  show ?case
  proof (cases res)
    case (Inl err)
    with r show ?thesis by simp
  next
    case (Inr rs)
    obtain res2 w2 where r2: "retrieve_each sv qs w1 = (res2, w2)"
      by (cases "retrieve_each sv qs w1")
    let ?acc = "acc @ first_occurrences (filter (\<lambda>r. g_text r \<notin> seen) rs)"
    let ?seen = "seen \<union> g_text ` set rs"
    have ih: "fan_out sv qs (?acc, ?seen) w1 =
       (case retrieve_each sv qs w1 of
          (Inl err, w1) \<Rightarrow> (Inl err, w1)
        | (Inr rss, w1) \<Rightarrow>
            (Inr (?acc @ first_occurrences (filter (\<lambda>r. g_text r \<notin> ?seen) (concat rss)),
                  ?seen \<union> g_text ` set (concat rss)), w1))"
      by (rule Cons.IH)
    have lhs: "fan_out sv (q # qs) (acc, seen) w = fan_out sv qs (?acc, ?seen) w1"
      using r Inr by (simp add: merge_results_eq)
    show ?thesis
    proof (cases res2)
      case (Inl err)
      with r Inr r2 lhs ih show ?thesis by simp
    next
      case rss: (Inr rss)
      have "fan_out sv (q # qs) (acc, seen) w
          = (Inr (?acc @ first_occurrences (filter (\<lambda>r. g_text r \<notin> ?seen) (concat rss)),
                  ?seen \<union> g_text ` set (concat rss)), w2)"
        using lhs ih r2 rss by simp
      moreover have "retrieve_each sv (q # qs) w = (Inr (rs # rss), w2)"
        using r Inr r2 rss by simp
      moreover have "?acc @ first_occurrences (filter (\<lambda>r. g_text r \<notin> ?seen) (concat rss))
          = acc @ first_occurrences (filter (\<lambda>r. g_text r \<notin> seen) (concat (rs # rss)))"
        using first_occurrences_unseen_append [of seen rs "concat rss"] by simp
      moreover have "?seen \<union> g_text ` set (concat rss) = seen \<union> g_text ` set (concat (rs # rss))"
        by auto
      ultimately show ?thesis by (simp only: prod.case sum.case)
    qed
  qed
qed

lemma retrieve_guidelines_eq:
  assumes "retrieval_queries state = Some queries" "queries \<noteq> []"
  shows "retrieve_guidelines sv fmt2 state w =
     (case retrieve_each sv queries w of
        (Inl err, w1) \<Rightarrow> (Inl err, w1)
      | (Inr rss, w1) \<Rightarrow>
          (Inr (no_update\<lparr>guidelines := Some (format_context fmt2 (merged_top5 rss))\<rparr>), w1))"
  using assms
  by (auto simp: retrieve_guidelines_def get_or_def fan_out_eq merged_top5_def
        split: prod.splits sum.splits)

lemma first_occurrences_set: "set (first_occurrences xs) \<subseteq> set xs"
  by (induction xs rule: first_occurrences.induct) auto

lemma first_occurrences_distinct: "distinct (map g_text (first_occurrences xs))"
proof (induction xs rule: first_occurrences.induct)
  case 1
  then show ?case by simp
next
  case (2 r rs)
  have "g_text r \<notin> g_text ` set (first_occurrences (filter (\<lambda>x. g_text x \<noteq> g_text r) rs))"
    using first_occurrences_set [of "filter (\<lambda>x. g_text x \<noteq> g_text r) rs"] by auto
  with 2 show ?case by simp
qed

lemma merged_top5_props:
  "distinct (map g_text (merged_top5 rss))"
  "length (merged_top5 rss) \<le> 5"
  "sorted (map (\<lambda>r. - g_score r) (merged_top5 rss))"
  "set (merged_top5 rss) \<subseteq> set (concat rss)"
proof -
  let ?d = "first_occurrences (concat rss)"
  let ?s = "sort_key (\<lambda>r. - g_score r) ?d"
  have "distinct (map g_text ?s)"
    using first_occurrences_distinct [of "concat rss"] by (simp add: distinct_map)
  then show "distinct (map g_text (merged_top5 rss))"
    unfolding merged_top5_def by (simp add: take_map [symmetric] distinct_take)
  show "length (merged_top5 rss) \<le> 5" by (simp add: merged_top5_def)
  have "sorted (map (\<lambda>r. - g_score r) ?s)" by simp
  then show "sorted (map (\<lambda>r. - g_score r) (merged_top5 rss))"
    unfolding merged_top5_def by (simp add: take_map [symmetric] sorted_wrt_take)
  show "set (merged_top5 rss) \<subseteq> set (concat rss)"
    unfolding merged_top5_def
    using first_occurrences_set [of "concat rss"] set_take_subset [of 5 ?s] by auto
qed

lemma map_result_length: "map_result f xs = Inr ys \<Longrightarrow> length ys = length xs"
  by (induction xs arbitrary: ys) (auto split: sum.splits)

lemma retrieve_length:
  assumes "limit_respected sv" and "retrieve sv query k th w = (Inr results, w1)"
  shows "length results \<le> k"
proof -
  from assms(2) obtain v w0 points where
    "query_points sv v k th w0 = (Inr points, w1)" "map_result point_result points = Inr results"
    by (auto simp: retrieve_def split: prod.splits sum.splits)
  then have "length results = length points" and "length points \<le> k"
    using assms(1) map_result_length [of point_result points results]
    unfolding limit_respected_def by blast+
  then show ?thesis by simp
qed

lemma retrieve_each_lengths:
  assumes "limit_respected sv"
  shows "retrieve_each sv queries w = (Inr rss, w1) \<Longrightarrow>
         length rss = length queries \<and> (\<forall>rs\<in>set rss. length rs \<le> 3)
         \<and> length (concat rss) \<le> 3 * length queries"
proof (induction queries arbitrary: w rss)
  case Nil
  then show ?case by simp
next
  case (Cons q qs)
  from Cons.prems obtain rs w0 rest where
    r: "retrieve sv q 3 DEFAULT_SCORE_THRESHOLD w = (Inr rs, w0)"
    and rest: "retrieve_each sv qs w0 = (Inr rest, w1)" and rss: "rss = rs # rest"
    by (auto split: prod.splits sum.splits)
  from retrieve_length [OF assms r] have "length rs \<le> 3" .
  with Cons.IH [OF rest] rss show ?case by auto
qed

lemmas index_eval =
  retrieve_def logging_index_def chunk_def hit_def point_result_def get_or_def
  DEFAULT_SCORE_THRESHOLD_def merged_top5_def

text \<open>
  Claim C2. For every list of queries, the loop of \<^verbatim>\<open>retrieve_guidelines\<close> runs
  \<^verbatim>\<open>retrieve\<close> once per query, in list order, each call on the state of the services that the
  call before left; a failing call ends the loop with its exception. When all calls succeed,
  the list it has built is the concatenation of the per-query results, deduplicated by exact
  chunk text with the first occurrence kept. For a list that is not empty, the node formats
  the first five of that list sorted (stably) by descending score. In this merged output no
  chunk text occurs twice, the scores descend, there are at most five entries, and each is a
  result of some query.
\<close>

theorem fan_out_merges_top5:
  "fan_out sv queries ([], {}) w =
     (case retrieve_each sv queries w of
        (Inl err, w1) \<Rightarrow> (Inl err, w1)
      | (Inr rss, w1) \<Rightarrow>
          (Inr (first_occurrences (concat rss), g_text ` set (concat rss)), w1))
   \<and> (retrieval_queries state = Some queries \<and> queries \<noteq> [] \<longrightarrow>
        retrieve_guidelines sv fmt2 state w =
          (case retrieve_each sv queries w of
             (Inl err, w1) \<Rightarrow> (Inl err, w1)
           | (Inr rss, w1) \<Rightarrow>
               (Inr (no_update\<lparr>guidelines := Some (format_context fmt2 (merged_top5 rss))\<rparr>),
                w1)))
   \<and> merged_top5 rss = take 5 (sort_key (\<lambda>r. - g_score r) (first_occurrences (concat rss)))
   \<and> distinct (map g_text (merged_top5 rss))
   \<and> sorted_wrt (\<lambda>a b. g_score b \<le> g_score a) (merged_top5 rss)
   \<and> length (merged_top5 rss) \<le> 5
   \<and> set (merged_top5 rss) \<subseteq> set (concat rss)"
proof -
  have loop: "fan_out sv queries ([], {}) w =
     (case retrieve_each sv queries w of
        (Inl err, w1) \<Rightarrow> (Inl err, w1)
      | (Inr rss, w1) \<Rightarrow>
          (Inr (first_occurrences (concat rss), g_text ` set (concat rss)), w1))"
    by (simp add: fan_out_eq split: prod.splits sum.splits)
  have node: "retrieval_queries state = Some queries \<and> queries \<noteq> [] \<longrightarrow>
        retrieve_guidelines sv fmt2 state w =
          (case retrieve_each sv queries w of
             (Inl err, w1) \<Rightarrow> (Inl err, w1)
           | (Inr rss, w1) \<Rightarrow>
               (Inr (no_update\<lparr>guidelines := Some (format_context fmt2 (merged_top5 rss))\<rparr>),
                w1))"
  proof (intro impI, elim conjE)
    assume "retrieval_queries state = Some queries" and "queries \<noteq> []"
    then show "retrieve_guidelines sv fmt2 state w =
          (case retrieve_each sv queries w of
             (Inl err, w1) \<Rightarrow> (Inl err, w1)
           | (Inr rss, w1) \<Rightarrow>
               (Inr (no_update\<lparr>guidelines := Some (format_context fmt2 (merged_top5 rss))\<rparr>),
                w1))"
      by (rule retrieve_guidelines_eq)
  qed
  have desc: "sorted_wrt (\<lambda>a b. g_score b \<le> g_score a) (merged_top5 rss)"
    using merged_top5_props(3) [of rss] by (simp add: sorted_map)
  have unfolded: "merged_top5 rss
      = take 5 (sort_key (\<lambda>r. - g_score r) (first_occurrences (concat rss)))"
    by (simp only: merged_top5_def)
  from loop node unfolded merged_top5_props(1) [of rss] desc merged_top5_props(2) [of rss]
    merged_top5_props(4) [of rss]
  show ?thesis by - (intro conjI; assumption)
qed

theorem fan_out_merges_top5_witness:
  "retrieve_guidelines logging_index (\<lambda>x. ''0.00'')
       (no_update\<lparr>retrieval_queries := Some [''q1'', ''qq2'']\<rparr>) ([], [])
     = (Inr (no_update\<lparr>guidelines := Some (format_context (\<lambda>x. ''0.00'')
               [hit ''A'' 0.9, hit ''E'' 0.6, hit ''F'' 0.55, hit ''B'' 0.5, hit ''C'' 0.4])\<rparr>),
        ([''q1'', ''qq2''], [3, 3]))"
proof -
  have each: "retrieve_each logging_index [''q1'', ''qq2''] ([], [])
      = (Inr [[hit ''A'' 0.9, hit ''B'' 0.5, hit ''C'' 0.4],
              [hit ''B'' 0.95, hit ''E'' 0.6, hit ''F'' 0.55]], ([''q1'', ''qq2''], [3, 3]))"
    by (simp add: index_eval)
  from fan_out_merges_top5
         [where state = "no_update\<lparr>retrieval_queries := Some [''q1'', ''qq2'']\<rparr>"
            and queries = "[''q1'', ''qq2'']" and sv = logging_index and w = "([], [])"
            and ?fmt2.0 = "\<lambda>x. ''0.00''", THEN conjunct2, THEN conjunct1]
  have "retrieve_guidelines logging_index (\<lambda>x. ''0.00'')
       (no_update\<lparr>retrieval_queries := Some [''q1'', ''qq2'']\<rparr>) ([], [])
     = (case retrieve_each logging_index [''q1'', ''qq2''] ([], []) of
          (Inl err, w1) \<Rightarrow> (Inl err, w1)
        | (Inr rss, w1) \<Rightarrow>
            (Inr (no_update\<lparr>guidelines :=
               Some (format_context (\<lambda>x. ''0.00'') (merged_top5 rss))\<rparr>), w1))"
    by (simp del: retrieve_each.simps)
  then show ?thesis
    unfolding each by (simp add: merged_top5_def hit_def)
qed

text \<open>
  Claim C10. The loop of \<^verbatim>\<open>retrieve_guidelines\<close> calls \<^verbatim>\<open>retrieve\<close> with \<^verbatim>\<open>top_k=3\<close>, below the
  default of 5. For a vector index that returns at most \<open>limit\<close> points, each retrieval of
  the fan-out returns at most 3 results, so the candidates that the loop merges, before
  deduplication and before the cap at five, hold one list of at most 3 results per query.
\<close>

theorem per_query_limit_three:
  assumes "limit_respected sv"
  shows "(retrieve sv query 3 DEFAULT_SCORE_THRESHOLD w = (Inr results, w1)
            \<longrightarrow> length results \<le> 3)
     \<and> (retrieve_each sv queries w = (Inr rss, w2) \<longrightarrow>
           fan_out sv queries ([], {}) w
             = (Inr (first_occurrences (concat rss), g_text ` set (concat rss)), w2)
           \<and> length rss = length queries \<and> (\<forall>rs\<in>set rss. length rs \<le> 3)
           \<and> length (concat rss) \<le> 3 * length queries)
     \<and> 3 < DEFAULT_TOP_K"
proof -
  have one: "retrieve sv query 3 DEFAULT_SCORE_THRESHOLD w = (Inr results, w1)
            \<longrightarrow> length results \<le> 3"
    using retrieve_length [OF assms] by blast
  have loop: "fan_out sv queries ([], {}) w
             = (Inr (first_occurrences (concat rss), g_text ` set (concat rss)), w2)"
    if "retrieve_each sv queries w = (Inr rss, w2)"
    using that by (simp add: fan_out_eq)
  from one loop retrieve_each_lengths [OF assms, of queries w rss w2] show ?thesis
    by (simp add: DEFAULT_TOP_K_def)
qed

theorem per_query_limit_three_witness:
  "limit_respected logging_index
   \<and> retrieve_each logging_index [''q1'', ''qq2''] ([], [])
      = (Inr [[hit ''A'' 0.9, hit ''B'' 0.5, hit ''C'' 0.4],
              [hit ''B'' 0.95, hit ''E'' 0.6, hit ''F'' 0.55]], ([''q1'', ''qq2''], [3, 3]))
   \<and> fan_out logging_index [''q1'', ''qq2''] ([], {}) ([], [])
      = (Inr (first_occurrences (concat [[hit ''A'' 0.9, hit ''B'' 0.5, hit ''C'' 0.4],
                                         [hit ''B'' 0.95, hit ''E'' 0.6, hit ''F'' 0.55]]),
              g_text ` set (concat [[hit ''A'' 0.9, hit ''B'' 0.5, hit ''C'' 0.4],
                                    [hit ''B'' 0.95, hit ''E'' 0.6, hit ''F'' 0.55]])),
         ([''q1'', ''qq2''], [3, 3]))"
proof -
  have contract: "limit_respected logging_index"
    by (auto simp: limit_respected_def logging_index_def)
  have each: "retrieve_each logging_index [''q1'', ''qq2''] ([], [])
      = (Inr [[hit ''A'' 0.9, hit ''B'' 0.5, hit ''C'' 0.4],
              [hit ''B'' 0.95, hit ''E'' 0.6, hit ''F'' 0.55]], ([''q1'', ''qq2''], [3, 3]))"
    by (simp add: index_eval)
  note merged = per_query_limit_three
      [OF contract, where queries = "[''q1'', ''qq2'']" and w = "([], [])",
       THEN conjunct2, THEN conjunct1, rule_format, OF each, THEN conjunct1]
  from contract each merged show ?thesis by blast
qed


section \<open>The language-model gateway\<close>

lemma not_space_chars [simp]:
  "\<not> isspace (CHR ''`'')" "\<not> isspace (CHR ''}'')" "\<not> isspace (CHR ''{'')" "\<not> isspace (CHR ''j'')"
  by (simp_all add: isspace_def)





















end
